theory Spec2Isabelle
  imports Main
begin

section \<open>Data model (store/models.py and the session dictionaries of store/views.py)\<close>

text \<open>
  Prices are \<open>DecimalField(decimal_places=2)\<close> values; they are modelled as an exact
  number of cents. The views push them through \<open>str\<close> and \<open>float\<close>; the model
  computes with the exact value, so nothing below speaks about binary rounding.
\<close>

type_synonym price = int

text \<open>
  A row of \<open>Product\<close>. The views test \<open>product.stock is not None\<close> everywhere, so the
  stock is an optional integer here, \<open>None\<close> being Python's \<open>None\<close>. The primary key is
  the key of the catalog map.
\<close>

record product =
  p_name :: string
  p_price :: price
  p_image :: string
  p_stock :: "int option"
  p_is_active :: bool

type_synonym catalog = "int \<rightharpoonup> product"

text \<open>
  A cart line is the dictionary kept in \<open>request.session['cart']\<close>: keys \<open>id\<close>,
  \<open>name\<close>, \<open>price\<close>, \<open>image\<close>, \<open>quantity\<close> and, once the cart page has been
  rendered, \<open>current_stock\<close> (absent, or the product's stock, which may be \<open>None\<close>).
\<close>

record line =
  l_id :: int
  l_name :: string
  l_price :: price
  l_image :: string
  l_quantity :: int
  l_current_stock :: "int option option"

record session =
  s_cart :: "line list option"
  s_cart_count :: "int option"
  s_last_order_id :: "int option"

text \<open>The cleaned fields of a valid \<open>OrderForm\<close>.\<close>

record order_fields =
  f_name :: string
  f_email :: string
  f_phone :: string
  f_address :: string
  f_payment_method :: string

record order =
  o_id :: int
  o_name :: string
  o_email :: string
  o_phone :: string
  o_address :: string
  o_payment_method :: string
  o_status :: string
  o_items :: "line list"
  o_total :: price
  o_shipping_cost :: price
  o_tax_amount :: price
  o_discount_amount :: price
  o_final_total :: price

record subscriber =
  sub_email :: string
  sub_is_active :: bool

text \<open>The texts handed to \<open>messages.warning\<close> and \<open>messages.error\<close>, by their f-string.\<close>

datatype notice =
    Quantity_adjusted string
  | Removed_from_cart string
  | Cart_is_empty
  | Only_items_available int string
  | No_longer_available string
  | Correct_the_form

text \<open>The mails handed to \<open>send_mail\<close>: the order id or the subscriber's address.\<close>

datatype mail =
    New_order int
  | Order_confirmation int string
  | New_subscriber string

datatype log_entry =
    Email_sending_failed
  | Customer_confirmation_failed
  | Subscription_email_failed
  | JSON_decode_error
  | Unexpected_error
  | Update_cart_error

datatype error =
    Product_id_required
  | Only_in_stock int
  | Only_available_for int string
  | Http404
  | Invalid_JSON
  | Email_required

datatype response =
    Render_cart "line list" price
  | Render_checkout "line list" price
  | Redirect_cart
  | Redirect_success
  | Json_cart int
  | Json_subscribed
  | Json_error error
  | Server_error

text \<open>
  Everything a request can read or change: the tables, the one visitor's session, the
  messages queued for the next page, the mails handed to the mail backend and the log.
\<close>

record world =
  w_products :: catalog
  w_orders :: "order list"
  w_next_order_id :: int
  w_subscribers :: "subscriber list"
  w_session :: session
  w_messages :: "notice list"
  w_outbox :: "mail list"
  w_log :: "log_entry list"

datatype request = GET | POST "order_fields option"

record add_data =
  a_product_id :: "int option"
  a_quantity :: "int option"


section \<open>Collaborators\<close>

text \<open>\<open>Product.objects.get(id=i, is_active=True)\<close>; \<open>None\<close> is \<open>Product.DoesNotExist\<close>.\<close>

definition get_active :: "catalog \<Rightarrow> int \<Rightarrow> product option" where
  "get_active cat i =
     (case cat i of
        None \<Rightarrow> None
      | Some p \<Rightarrow> if p_is_active p then Some p else None)"

text \<open>
  The guard \<open>product.stock is not None and quantity > product.stock\<close> of all four
  views: the stock when the guard fires.
\<close>

definition over_stock :: "int \<Rightarrow> product \<Rightarrow> int option" where
  "over_stock q p =
     (case p_stock p of
        None \<Rightarrow> None
      | Some s \<Rightarrow> if q > s then Some s else None)"

text \<open>\<open>request.session.get('cart', [])\<close> and \<open>request.session.get('cart_count', 0)\<close>.\<close>

definition get_cart :: "session \<Rightarrow> line list" where
  "get_cart s = (case s_cart s of None \<Rightarrow> [] | Some c \<Rightarrow> c)"

definition get_cart_count :: "session \<Rightarrow> int" where
  "get_cart_count s = (case s_cart_count s of None \<Rightarrow> 0 | Some n \<Rightarrow> n)"

definition sum_quantity :: "line list \<Rightarrow> int" where
  "sum_quantity c = sum_list (map l_quantity c)"

definition add_message :: "notice \<Rightarrow> world \<Rightarrow> world" where
  "add_message n w = w\<lparr>w_messages := w_messages w @ [n]\<rparr>"

text \<open>
  \<open>send_mail(..., fail_silently=False)\<close> inside \<open>try/except Exception\<close>: the mail
  backend is a parameter telling whether a send goes through; the attempt is recorded,
  and a failure is logged and swallowed.
\<close>

definition try_send :: "(mail \<Rightarrow> bool) \<Rightarrow> mail \<Rightarrow> log_entry \<Rightarrow> world \<Rightarrow> world" where
  "try_send send_mail m e w =
     (let w1 = w\<lparr>w_outbox := w_outbox w @ [m]\<rparr>
      in if send_mail m then w1 else w1\<lparr>w_log := w_log w1 @ [e]\<rparr>)"

section \<open>The cart page: \<open>cart\<close>\<close>

text \<open>One turn of the loop of \<open>cart\<close>: the line kept, if any, and the warnings.\<close>

definition cart_item :: "catalog \<Rightarrow> line \<Rightarrow> line option \<times> notice list" where
  "cart_item cat item =
     (case get_active cat (l_id item) of
        None \<Rightarrow> (None, [Removed_from_cart (l_name item)])
      | Some p \<Rightarrow>
          (case over_stock (l_quantity item) p of
             Some s \<Rightarrow>
               (Some (item\<lparr>l_price := p_price p, l_quantity := s,
                           l_current_stock := Some (p_stock p)\<rparr>),
                [Quantity_adjusted (p_name p)])
           | None \<Rightarrow>
               (Some (item\<lparr>l_price := p_price p, l_current_stock := Some (p_stock p)\<rparr>),
                [])))"

fun cart_loop ::
  "catalog \<Rightarrow> line list \<Rightarrow> line list \<Rightarrow> price \<Rightarrow> notice list
     \<Rightarrow> line list \<times> price \<times> notice list" where
  "cart_loop cat [] validated_cart tot msgs = (validated_cart, tot, msgs)"
| "cart_loop cat (item # items) validated_cart tot msgs =
     (case cart_item cat item of
        (None, ns) \<Rightarrow> cart_loop cat items validated_cart tot (msgs @ ns)
      | (Some item', ns) \<Rightarrow>
          cart_loop cat items (validated_cart @ [item'])
            (tot + l_price item' * l_quantity item') (msgs @ ns))"

definition cart :: "world \<Rightarrow> response \<times> world" where
  "cart w =
     (case cart_loop (w_products w) (get_cart (w_session w)) [] 0 [] of
        (validated_cart, tot, ns) \<Rightarrow>
          (Render_cart validated_cart tot,
           w\<lparr>w_session := (w_session w)\<lparr>s_cart := Some validated_cart,
                                         s_cart_count := Some (sum_quantity validated_cart)\<rparr>,
             w_messages := w_messages w @ ns\<rparr>))"

section \<open>Checkout: \<open>checkout\<close>\<close>

text \<open>One turn of the revalidation loop: the error that ends the request, or the line.\<close>

definition checkout_item :: "catalog \<Rightarrow> line \<Rightarrow> notice + line" where
  "checkout_item cat item =
     (case get_active cat (l_id item) of
        None \<Rightarrow> Inl (No_longer_available (l_name item))
      | Some p \<Rightarrow>
          (case over_stock (l_quantity item) p of
             Some s \<Rightarrow> Inl (Only_items_available s (p_name p))
           | None \<Rightarrow> Inr (item\<lparr>l_price := p_price p\<rparr>)))"

fun checkout_loop ::
  "catalog \<Rightarrow> line list \<Rightarrow> line list \<Rightarrow> price \<Rightarrow> notice + (line list \<times> price)" where
  "checkout_loop cat [] validated_cart tot = Inr (validated_cart, tot)"
| "checkout_loop cat (item # items) validated_cart tot =
     (case checkout_item cat item of
        Inl n \<Rightarrow> Inl n
      | Inr item' \<Rightarrow>
          checkout_loop cat items (validated_cart @ [item'])
            (tot + l_price item' * l_quantity item'))"

text \<open>
  \<open>form.save(commit=False)\<close>, the three assignments and \<open>order.save()\<close>, which
  recomputes \<open>final_total\<close>; the three amounts have their default 0. The id is the
  table's next key.
\<close>

definition order_save :: "order_fields \<Rightarrow> line list \<Rightarrow> price \<Rightarrow> world \<Rightarrow> order \<times> world" where
  "order_save f validated_cart tot w =
     (let order = \<lparr>o_id = w_next_order_id w, o_name = f_name f, o_email = f_email f,
                    o_phone = f_phone f, o_address = f_address f,
                    o_payment_method = f_payment_method f, o_status = ''pending'',
                    o_items = validated_cart, o_total = tot, o_shipping_cost = 0,
                    o_tax_amount = 0, o_discount_amount = 0,
                    o_final_total = tot + 0 + 0 - 0\<rparr>
      in (order, w\<lparr>w_orders := w_orders w @ [order],
                    w_next_order_id := w_next_order_id w + 1\<rparr>))"

text \<open>
  The stock loop. \<open>Product.objects.get(id=...)\<close> raises when the row is gone, and
  \<open>product.save()\<close> raises when the new stock is negative, \<open>stock\<close> being a
  \<open>PositiveIntegerField\<close>: \<open>Inl\<close> carries the catalog as the rows saved so far have
  left it. Nothing is saved for a product whose stock is \<open>None\<close>.
\<close>

fun update_stock :: "catalog \<Rightarrow> line list \<Rightarrow> catalog + catalog" where
  "update_stock cat [] = Inr cat"
| "update_stock cat (item # items) =
     (case cat (l_id item) of
        None \<Rightarrow> Inl cat
      | Some p \<Rightarrow>
          (case p_stock p of
             None \<Rightarrow> update_stock cat items
           | Some s \<Rightarrow>
               if s - l_quantity item < 0 then Inl cat
               else update_stock
                      (cat(l_id item \<mapsto> p\<lparr>p_stock := Some (s - l_quantity item)\<rparr>)) items))"

text \<open>
  No transaction is opened, so what was saved before an exception stays saved; the
  session is written back with the response, and not at all for a response 500.
\<close>

definition checkout :: "(mail \<Rightarrow> bool) \<Rightarrow> request \<Rightarrow> world \<Rightarrow> response \<times> world" where
  "checkout send_mail req w =
     (let cart_items = get_cart (w_session w) in
      if cart_items = [] then (Redirect_cart, add_message Cart_is_empty w)
      else
        (case checkout_loop (w_products w) cart_items [] 0 of
           Inl n \<Rightarrow> (Redirect_cart, add_message n w)
         | Inr (validated_cart, tot) \<Rightarrow>
             (let w1 = w\<lparr>w_session := (w_session w)\<lparr>s_cart := Some validated_cart\<rparr>\<rparr> in
              case req of
                GET \<Rightarrow> (Render_checkout validated_cart tot, w1)
              | POST None \<Rightarrow>
                  (Render_checkout validated_cart tot, add_message Correct_the_form w1)
              | POST (Some f) \<Rightarrow>
                  (case order_save f validated_cart tot w1 of
                     (order, w2) \<Rightarrow>
                       (case update_stock (w_products w2) validated_cart of
                          Inl cat \<Rightarrow>
                            (Server_error, w2\<lparr>w_products := cat, w_session := w_session w\<rparr>)
                        | Inr cat \<Rightarrow>
                            (let w3 = w2\<lparr>w_products := cat\<rparr>;
                                 w4 = try_send send_mail (New_order (o_id order))
                                        Email_sending_failed w3;
                                 w5 = try_send send_mail
                                        (Order_confirmation (o_id order) (o_email order))
                                        Customer_confirmation_failed w4
                             in (Redirect_success,
                                 w5\<lparr>w_session := (w_session w5)
                                      \<lparr>s_cart := Some [], s_cart_count := Some 0,
                                       s_last_order_id := Some (o_id order)\<rparr>\<rparr>)))))))"

section \<open>Cart mutations: \<open>add_to_cart\<close>, \<open>update_cart\<close>, \<open>remove_from_cart\<close>\<close>

text \<open>
  Product ids are the integer keys of the catalog, in the cart and in the JSON bodies, so
  that \<open>str(item['id']) == str(product_id)\<close> is equality. A body that is not JSON is
  \<open>None\<close>; a key missing from the body is \<open>None\<close> in its field.
\<close>

text \<open>
  The search loop of \<open>add_to_cart\<close>: the cart with the first line of the product
  raised by the quantity, and whether there was one (\<open>item_found\<close>).
\<close>

fun add_loop :: "int \<Rightarrow> int \<Rightarrow> product \<Rightarrow> line list \<Rightarrow> error + (line list \<times> bool)" where
  "add_loop product_id quantity p [] = Inr ([], False)"
| "add_loop product_id quantity p (item # items) =
     (if l_id item = product_id then
        (case over_stock (l_quantity item + quantity) p of
           Some s \<Rightarrow> Inl (Only_in_stock s)
         | None \<Rightarrow> Inr (item\<lparr>l_quantity := l_quantity item + quantity\<rparr> # items, True))
      else
        (case add_loop product_id quantity p items of
           Inl e \<Rightarrow> Inl e
         | Inr (items', item_found) \<Rightarrow> Inr (item # items', item_found)))"

definition new_line :: "int \<Rightarrow> product \<Rightarrow> int \<Rightarrow> line" where
  "new_line i p quantity =
     \<lparr>l_id = i, l_name = p_name p, l_price = p_price p, l_image = p_image p,
      l_quantity = quantity, l_current_stock = None\<rparr>"

definition put_cart :: "line list \<Rightarrow> world \<Rightarrow> world" where
  "put_cart c w =
     w\<lparr>w_session := (w_session w)\<lparr>s_cart := Some c, s_cart_count := Some (sum_quantity c)\<rparr>\<rparr>"

definition log_error :: "log_entry \<Rightarrow> world \<Rightarrow> world" where
  "log_error e w = w\<lparr>w_log := w_log w @ [e]\<rparr>"

definition add_to_cart :: "add_data option \<Rightarrow> world \<Rightarrow> response \<times> world" where
  "add_to_cart body w =
     (case body of
        None \<Rightarrow> (Json_error Invalid_JSON, log_error JSON_decode_error w)
      | Some data \<Rightarrow>
          (let quantity = (case a_quantity data of None \<Rightarrow> 1 | Some q \<Rightarrow> q) in
           case a_product_id data of
             None \<Rightarrow> (Json_error Product_id_required, w)
           | Some product_id \<Rightarrow>
               if product_id = 0 then (Json_error Product_id_required, w)
               else
                 (case get_active (w_products w) product_id of
                    None \<Rightarrow> (Json_error Http404, log_error Unexpected_error w)
                  | Some p \<Rightarrow>
                      (case over_stock quantity p of
                         Some s \<Rightarrow> (Json_error (Only_in_stock s), w)
                       | None \<Rightarrow>
                           (case add_loop product_id quantity p (get_cart (w_session w)) of
                              Inl e \<Rightarrow> (Json_error e, w)
                            | Inr (c, item_found) \<Rightarrow>
                                (let c' = (if item_found then c
                                           else c @ [new_line product_id p quantity])
                                 in (Json_cart (sum_quantity c'), put_cart c' w)))))))"



definition remove_from_cart :: "int option option \<Rightarrow> world \<Rightarrow> response \<times> world" where
  "remove_from_cart body w =
     (case body of
        None \<Rightarrow> (Json_error Invalid_JSON, w)
      | Some None \<Rightarrow> (Json_error Product_id_required, w)
      | Some (Some product_id) \<Rightarrow>
          if product_id = 0 then (Json_error Product_id_required, w)
          else
            (let updated_cart = filter (\<lambda>item. l_id item \<noteq> product_id)
                                  (get_cart (w_session w))
             in (Json_cart (sum_quantity updated_cart), put_cart updated_cart w)))"

section \<open>Newsletter: \<open>subscribe\<close>\<close>

text \<open>
  \<open>Subscriber.objects.get_or_create(email=email, ...)\<close>: the row, whether it was
  created, and the table afterwards; \<open>None\<close> is \<open>MultipleObjectsReturned\<close>.
\<close>

definition get_or_create ::
  "string \<Rightarrow> subscriber list \<Rightarrow> (subscriber \<times> bool \<times> subscriber list) option" where
  "get_or_create email subs =
     (case filter (\<lambda>s. sub_email s = email) subs of
        [] \<Rightarrow> (let s = \<lparr>sub_email = email, sub_is_active = True\<rparr>
               in Some (s, True, subs @ [s]))
      | [s] \<Rightarrow> Some (s, False, subs)
      | _ \<Rightarrow> None)"

definition subscribe :: "(mail \<Rightarrow> bool) \<Rightarrow> string option option \<Rightarrow> world \<Rightarrow> response \<times> world" where
  "subscribe send_mail body w =
     (case body of
        None \<Rightarrow> (Json_error Invalid_JSON, w)
      | Some None \<Rightarrow> (Json_error Email_required, w)
      | Some (Some email) \<Rightarrow>
          if email = [] then (Json_error Email_required, w)
          else
            (case get_or_create email (w_subscribers w) of
               None \<Rightarrow> (Server_error, w)
             | Some (subscriber, created, subs) \<Rightarrow>
                 (let w1 = w\<lparr>w_subscribers := subs\<rparr>
                  in (Json_subscribed,
                      if created
                      then try_send send_mail (New_subscriber (sub_email subscriber))
                             Subscription_email_failed w1
                      else w1))))"

section \<open>Vocabulary of the properties\<close>

text \<open>The cart total: the sum of price times quantity over the lines.\<close>

definition line_total :: "line list \<Rightarrow> price" where
  "line_total c = sum_list (map (\<lambda>l. l_price l * l_quantity l) c)"

text \<open>A line passes the checks of a rejecting context: its product is there and active,
  and the quantity is within a finite stock.\<close>

definition line_ok :: "catalog \<Rightarrow> line \<Rightarrow> bool" where
  "line_ok cat item =
     (case get_active cat (l_id item) of
        None \<Rightarrow> False
      | Some p \<Rightarrow> over_stock (l_quantity item) p = None)"

text \<open>The line with the product's current price.\<close>

definition refresh_price :: "catalog \<Rightarrow> line \<Rightarrow> line" where
  "refresh_price cat item =
     (case cat (l_id item) of
        None \<Rightarrow> item
      | Some p \<Rightarrow> item\<lparr>l_price := p_price p\<rparr>)"



text \<open>A mail backend that delivers everything, and one that always raises.\<close>

definition mail_up :: "mail \<Rightarrow> bool" where
  "mail_up m = True"

definition mail_down :: "mail \<Rightarrow> bool" where
  "mail_down m = False"

text \<open>The same address submitted \<open>n\<close> times in a row: the answers and the final state.\<close>

fun subscribe_times ::
  "(mail \<Rightarrow> bool) \<Rightarrow> string \<Rightarrow> nat \<Rightarrow> world \<Rightarrow> response list \<times> world" where
  "subscribe_times send_mail email 0 w = ([], w)"
| "subscribe_times send_mail email (Suc n) w =
     (case subscribe send_mail (Some (Some email)) w of
        (r, w1) \<Rightarrow>
          (case subscribe_times send_mail email n w1 of
             (rs, w2) \<Rightarrow> (r # rs, w2)))"

text \<open>The rows of the subscriber table with a given address.\<close>

definition rows_of :: "string \<Rightarrow> world \<Rightarrow> subscriber list" where
  "rows_of email w = filter (\<lambda>s. sub_email s = email) (w_subscribers w)"

text \<open>The \<open>unique=True\<close> of \<open>Subscriber.email\<close>.\<close>

definition unique_emails :: "world \<Rightarrow> bool" where
  "unique_emails w = distinct (map sub_email (w_subscribers w))"









text \<open>What the cart page never touches in a line: id, name and image.\<close>

definition label :: "line \<Rightarrow> int \<times> string \<times> string" where
  "label l = (l_id l, l_name l, l_image l)"

text \<open>The product of a line can be fetched: it is in the catalog and active.\<close>

definition available :: "catalog \<Rightarrow> line \<Rightarrow> bool" where
  "available cat l = (get_active cat (l_id l) \<noteq> None)"









section \<open>A small shop, for the examples\<close>

definition shirt :: product where
  "shirt = \<lparr>p_name = ''Shirt'', p_price = 1999, p_image = ''/media/products/shirt.png'',
            p_stock = Some 5, p_is_active = True\<rparr>"

definition album :: product where
  "album = \<lparr>p_name = ''Album'', p_price = 500, p_image = [],
            p_stock = None, p_is_active = True\<rparr>"

definition shop :: "line list \<Rightarrow> world" where
  "shop c =
     \<lparr>w_products = [1 \<mapsto> shirt, 2 \<mapsto> album], w_orders = [], w_next_order_id = 1,
      w_subscribers = [],
      w_session = \<lparr>s_cart = Some c, s_cart_count = Some (sum_quantity c),
                   s_last_order_id = None\<rparr>,
      w_messages = [], w_outbox = [], w_log = []\<rparr>"

definition a_line :: "int \<Rightarrow> string \<Rightarrow> price \<Rightarrow> int \<Rightarrow> line" where
  "a_line i n pr q =
     \<lparr>l_id = i, l_name = n, l_price = pr, l_image = [], l_quantity = q,
      l_current_stock = None\<rparr>"

definition customer :: order_fields where
  "customer = \<lparr>f_name = ''Ann'', f_email = ''ann@example.org'', f_phone = ''0123456789'',
               f_address = ''1 Main Street, Town'', f_payment_method = ''paypal''\<rparr>"






text \<open>A hat that is not in the catalog (any more), and an album.\<close>

definition gone_cart :: "line list" where
  "gone_cart = [a_line 3 ''Hat'' 900 1, a_line 2 ''Album'' 500 1]"



text \<open>The cart after two shirts have been added, and bodies for the next requests.\<close>

definition two_shirts :: "line list" where
  "two_shirts = [a_line 1 ''Shirt'' 1999 2]"





section \<open>Unfolding the examples\<close>

lemmas shop_defs = shop_def a_line_def shirt_def album_def customer_def mail_up_def
  mail_down_def get_cart_def get_cart_count_def sum_quantity_def

lemmas view_defs = checkout_def checkout_item_def get_active_def over_stock_def
  order_save_def try_send_def add_message_def Let_def

section \<open>Facts about the loops\<close>

lemma cart_loop_eq:
  "cart_loop cat items v t m =
     (v @ List.map_filter (\<lambda>i. fst (cart_item cat i)) items,
      t + line_total (List.map_filter (\<lambda>i. fst (cart_item cat i)) items),
      m @ concat (map (\<lambda>i. snd (cart_item cat i)) items))"
proof (induction items arbitrary: v t m)
  case Nil
  show ?case by (simp add: List.map_filter_simps line_total_def)
next
  case (Cons item items)
  show ?case
  proof (cases "cart_item cat item")
    case (Pair lo ns)
    then show ?thesis
      by (cases lo) (simp_all add: Cons.IH List.map_filter_simps line_total_def)
  qed
qed

lemma checkout_item_Inr:
  "checkout_item cat item = Inr l \<longleftrightarrow> line_ok cat item \<and> l = refresh_price cat item"
  by (auto simp: checkout_item_def line_ok_def refresh_price_def get_active_def
           split: option.splits if_splits)

lemma checkout_loop_Inr:
  "checkout_loop cat items v t = Inr (v', t') \<longleftrightarrow>
     (\<forall>item \<in> set items. line_ok cat item) \<and>
     v' = v @ map (refresh_price cat) items \<and>
     t' = t + line_total (map (refresh_price cat) items)"
proof (induction items arbitrary: v t)
  case Nil
  show ?case by (auto simp: line_total_def)
next
  case (Cons item items)
  show ?case
  proof (cases "checkout_item cat item")
    case (Inl n)
    then have "\<not> line_ok cat item"
      using checkout_item_Inr [of cat item] by auto
    with Inl show ?thesis by simp
  next
    case (Inr l)
    then have "line_ok cat item" "l = refresh_price cat item"
      using checkout_item_Inr [of cat item l] by auto
    with Inr show ?thesis
      by (auto simp: Cons.IH line_total_def)
  qed
qed



section \<open>Order commit\<close>






section \<open>Notifications\<close>

text \<open>
  C8. Whatever the mail backend does with the two mails of a checkout, the response and
  the state after the request are those of the run in which both mails are delivered,
  the log apart: the same order table, stocks, session (cart cleared, order id stored)
  and redirect. A failed send only adds a log entry.
\<close>

theorem checkout_mail_failure_harmless:
  "fst (checkout send_mail req w) = fst (checkout mail_up req w) \<and>
   (snd (checkout send_mail req w))\<lparr>w_log := []\<rparr> = (snd (checkout mail_up req w))\<lparr>w_log := []\<rparr>"
  by (simp add: checkout_def Let_def try_send_def mail_up_def add_message_def
        split: sum.splits request.splits option.splits prod.splits)

text \<open>Both mails fail: the checkout still commits, and the log has the two failures.\<close>

theorem checkout_mail_failure_harmless_witness:
  "fst (checkout mail_down (POST (Some customer)) (shop [a_line 1 ''Shirt'' 1500 2]))
     = Redirect_success \<and>
   length (w_orders (snd (checkout mail_down (POST (Some customer))
                            (shop [a_line 1 ''Shirt'' 1500 2])))) = 1 \<and>
   s_cart (w_session (snd (checkout mail_down (POST (Some customer))
                             (shop [a_line 1 ''Shirt'' 1500 2])))) = Some [] \<and>
   s_last_order_id (w_session (snd (checkout mail_down (POST (Some customer))
                             (shop [a_line 1 ''Shirt'' 1500 2])))) = Some 1 \<and>
   w_log (snd (checkout mail_down (POST (Some customer)) (shop [a_line 1 ''Shirt'' 1500 2])))
     = [Email_sending_failed, Customer_confirmation_failed]"
proof -
  let ?w = "shop [a_line 1 ''Shirt'' 1500 2]"
  let ?up = "checkout mail_up (POST (Some customer)) ?w"
  let ?down = "checkout mail_down (POST (Some customer)) ?w"
  have up: "fst ?up = Redirect_success" "length (w_orders (snd ?up\<lparr>w_log := []\<rparr>)) = 1"
    "s_cart (w_session (snd ?up\<lparr>w_log := []\<rparr>)) = Some []"
    "s_last_order_id (w_session (snd ?up\<lparr>w_log := []\<rparr>)) = Some 1"
    by (simp_all add: shop_defs view_defs)
  have log: "w_log (snd ?down) = [Email_sending_failed, Customer_confirmation_failed]"
    by (simp add: shop_defs view_defs)
  from checkout_mail_failure_harmless [of mail_down "POST (Some customer)" ?w]
  have "fst ?down = fst ?up" "snd ?down\<lparr>w_log := []\<rparr> = snd ?up\<lparr>w_log := []\<rparr>"
    by simp_all
  with up have "fst ?down = Redirect_success" "length (w_orders (snd ?down\<lparr>w_log := []\<rparr>)) = 1"
    "s_cart (w_session (snd ?down\<lparr>w_log := []\<rparr>)) = Some []"
    "s_last_order_id (w_session (snd ?down\<lparr>w_log := []\<rparr>)) = Some 1"
    by simp_all
  with log show ?thesis by simp
qed

lemma filter_key_unique:
  "distinct (map f xs) \<Longrightarrow> length (filter (\<lambda>s. f s = k) xs) \<le> 1"
  by (induction xs) (auto simp: filter_empty_conv image_iff)

lemma get_or_create_cases:
  assumes "distinct (map sub_email subs)"
  shows "(email \<notin> sub_email ` set subs \<and>
          get_or_create email subs =
            Some (\<lparr>sub_email = email, sub_is_active = True\<rparr>, True,
                  subs @ [\<lparr>sub_email = email, sub_is_active = True\<rparr>])) \<or>
         (email \<in> sub_email ` set subs \<and>
          (\<exists>s. sub_email s = email \<and> get_or_create email subs = Some (s, False, subs)))"
proof (cases "filter (\<lambda>s. sub_email s = email) subs")
  case Nil
  then have "email \<notin> sub_email ` set subs"
    by (auto simp: filter_empty_conv)
  with Nil show ?thesis by (simp add: get_or_create_def Let_def)
next
  case (Cons s rest)
  from filter_key_unique [OF assms, of email] Cons have rest: "rest = []" by simp
  from Cons have "s \<in> set (filter (\<lambda>s. sub_email s = email) subs)" by simp
  then have "s \<in> set subs" "sub_email s = email" by auto
  then have "email \<in> sub_email ` set subs" by auto
  with Cons rest \<open>sub_email s = email\<close> show ?thesis
    by (auto simp: get_or_create_def)
qed

lemma subscribe_step:
  assumes "email \<noteq> []" and "unique_emails w"
    and "subscribe send_mail (Some (Some email)) w = (r, w')"
  shows "r = Json_subscribed \<and> unique_emails w' \<and>
         email \<in> sub_email ` set (w_subscribers w') \<and>
         length (rows_of email w') = 1 \<and>
         w_outbox w' = w_outbox w @
           (if email \<in> sub_email ` set (w_subscribers w) then [] else [New_subscriber email])"
proof -
  from assms(2) have d: "distinct (map sub_email (w_subscribers w))"
    by (simp add: unique_emails_def)
  from get_or_create_cases [OF d, of email] show ?thesis
  proof
    assume a: "email \<notin> sub_email ` set (w_subscribers w) \<and>
          get_or_create email (w_subscribers w) =
            Some (\<lparr>sub_email = email, sub_is_active = True\<rparr>, True,
                  w_subscribers w @ [\<lparr>sub_email = email, sub_is_active = True\<rparr>])"
    then have "filter (\<lambda>s. sub_email s = email) (w_subscribers w) = []"
      by (auto simp: filter_empty_conv)
    with a assms(1,3) d show ?thesis
      by (auto simp: subscribe_def Let_def try_send_def unique_emails_def rows_of_def)
  next
    assume a: "email \<in> sub_email ` set (w_subscribers w) \<and>
          (\<exists>s. sub_email s = email \<and>
               get_or_create email (w_subscribers w) = Some (s, False, w_subscribers w))"
    then obtain s where s: "sub_email s = email"
      "get_or_create email (w_subscribers w) = Some (s, False, w_subscribers w)" by blast
    have "length (filter (\<lambda>s. sub_email s = email) (w_subscribers w)) \<le> 1"
      by (rule filter_key_unique [OF d])
    moreover have "filter (\<lambda>s. sub_email s = email) (w_subscribers w) \<noteq> []"
      using a by (auto simp: filter_empty_conv)
    ultimately have "length (filter (\<lambda>s. sub_email s = email) (w_subscribers w)) = 1"
      by (cases "filter (\<lambda>s. sub_email s = email) (w_subscribers w)") auto
    with a s assms(1,3) d show ?thesis
      by (auto simp: subscribe_def Let_def unique_emails_def rows_of_def)
  qed
qed

section \<open>Newsletter subscription\<close>

text \<open>
  C10. Submitting a non-empty address \<open>n\<close> times in a row to \<open>subscribe\<close>, on a table
  whose addresses are unique: every answer is the success answer; the table keeps unique
  addresses and, once the address was submitted, holds exactly one row for it; and the
  new-subscriber mail is attempted once, by the first submission, if the address was not
  in the table, and never otherwise.
\<close>

theorem subscribe_idempotent:
  assumes "email \<noteq> []" and "unique_emails w"
    and "subscribe_times send_mail email n w = (rs, w')"
  shows "rs = replicate n Json_subscribed \<and> unique_emails w' \<and>
         length (rows_of email w') \<le> 1 \<and>
         (0 < n \<longrightarrow> length (rows_of email w') = 1) \<and>
         w_outbox w' = w_outbox w @
           (if 0 < n \<and> email \<notin> sub_email ` set (w_subscribers w)
            then [New_subscriber email] else [])"
  using assms(2,3)
proof (induction n arbitrary: w rs w')
  case 0
  then show ?case
    using filter_key_unique [of sub_email "w_subscribers w" email]
    by (simp add: unique_emails_def rows_of_def)
next
  case (Suc n)
  obtain r w1 where s1: "subscribe send_mail (Some (Some email)) w = (r, w1)"
    by (cases "subscribe send_mail (Some (Some email)) w")
  obtain rs1 w2 where sn: "subscribe_times send_mail email n w1 = (rs1, w2)"
    by (cases "subscribe_times send_mail email n w1")
  from Suc.prems(2) s1 sn have eq: "rs = r # rs1" "w' = w2" by simp_all
  from subscribe_step [OF assms(1) Suc.prems(1) s1]
  have r: "r = Json_subscribed" and u1: "unique_emails w1"
    and in1: "email \<in> sub_email ` set (w_subscribers w1)"
    and one1: "length (rows_of email w1) = 1"
    and out1: "w_outbox w1 = w_outbox w @
           (if email \<in> sub_email ` set (w_subscribers w) then [] else [New_subscriber email])"
    by simp_all
  from Suc.IH [OF u1 sn]
  have rs1: "rs1 = replicate n Json_subscribed" and u2: "unique_emails w2"
    and le2: "length (rows_of email w2) \<le> 1"
    and pos2: "0 < n \<longrightarrow> length (rows_of email w2) = 1"
    and out2: "w_outbox w2 = w_outbox w1 @
           (if 0 < n \<and> email \<notin> sub_email ` set (w_subscribers w1)
            then [New_subscriber email] else [])"
    by simp_all
  have one2: "length (rows_of email w2) = 1"
  proof (cases n)
    case 0
    with sn one1 show ?thesis by simp
  next
    case (Suc m)
    with pos2 show ?thesis by simp
  qed
  from out2 in1 have "w_outbox w2 = w_outbox w1" by simp
  with out1 eq r rs1 u2 one2 show ?case by simp
qed

text \<open>An address that is new to the table, submitted three times.\<close>

theorem subscribe_idempotent_witness:
  "''ann@example.org'' \<noteq> [] \<and> unique_emails (shop []) \<and>
   fst (subscribe_times mail_down ''ann@example.org'' 3 (shop []))
     = [Json_subscribed, Json_subscribed, Json_subscribed] \<and>
   length (rows_of ''ann@example.org''
             (snd (subscribe_times mail_down ''ann@example.org'' 3 (shop [])))) = 1 \<and>
   w_outbox (snd (subscribe_times mail_down ''ann@example.org'' 3 (shop [])))
     = [New_subscriber ''ann@example.org'']"
proof -
  let ?r = "subscribe_times mail_down ''ann@example.org'' 3 (shop [])"
  have u: "unique_emails (shop [])"
    by (simp add: unique_emails_def shop_def)
  have e: "''ann@example.org'' \<noteq> []" by simp
  have h: "?r = (fst ?r, snd ?r)" by simp
  from subscribe_idempotent [OF e u h] show ?thesis
    using u by (simp add: shop_def numeral_3_eq_3)
qed













section \<open>The cart count\<close>










lemma cart_item_None:
  "cart_item cat item = (None, ns) \<longleftrightarrow>
     get_active cat (l_id item) = None \<and> ns = [Removed_from_cart (l_name item)]"
  by (auto simp: cart_item_def split: option.splits)

lemma session_cart:
  "get_cart (w_session (snd (cart w))) =
     List.map_filter (\<lambda>i. fst (cart_item (w_products w) i)) (get_cart (w_session w))"
  by (simp add: cart_def cart_loop_eq get_cart_def)

lemma messages_cart:
  "w_messages (snd (cart w)) =
     w_messages w @ concat (map (\<lambda>i. snd (cart_item (w_products w) i)) (get_cart (w_session w)))"
  by (simp add: cart_def cart_loop_eq)












section \<open>Quantities and stock\<close>




lemma cart_item_label:
  "map label (List.map_filter (\<lambda>i. fst (cart_item cat i)) c) =
     map label (filter (available cat) c)"
proof (induction c)
  case Nil
  show ?case by simp
next
  case (Cons item c)
  show ?case
  proof (cases "get_active cat (l_id item)")
    case None
    then have "fst (cart_item cat item) = None" "\<not> available cat item"
      by (simp_all add: cart_item_def available_def)
    then show ?thesis
      by (simp add: Cons.IH)
  next
    case (Some p)
    then have "\<exists>l. fst (cart_item cat item) = Some l \<and> label l = label item"
      by (cases "over_stock (l_quantity item) p") (simp_all add: cart_item_def label_def)
    moreover from Some have "available cat item"
      by (simp add: available_def)
    ultimately show ?thesis
      by (auto simp: Cons.IH)
  qed
qed

lemma cart_removed_notice:
  assumes "item \<in> set (get_cart (w_session w))" and "\<not> available (w_products w) item"
  shows "Removed_from_cart (l_name item) \<in> set (w_messages (snd (cart w)))"
proof -
  from assms(2) have "snd (cart_item (w_products w) item) = [Removed_from_cart (l_name item)]"
    by (simp add: cart_item_def available_def)
  with assms(1) show ?thesis
    by (force simp: messages_cart)
qed

lemma checkout_unavailable:
  assumes "item \<in> set (get_cart (w_session w))" and "\<not> available (w_products w) item"
  shows "fst (checkout send_mail req w) = Redirect_cart \<and>
         w_session (snd (checkout send_mail req w)) = w_session w \<and>
         (\<exists>n. w_messages (snd (checkout send_mail req w)) = w_messages w @ [n])"
proof -
  from assms(1) have ne: "get_cart (w_session w) \<noteq> []" by auto
  from assms(2) have "\<not> line_ok (w_products w) item"
    by (simp add: line_ok_def available_def)
  with assms(1) have "\<And>v t. checkout_loop (w_products w) (get_cart (w_session w)) [] 0 \<noteq> Inr (v, t)"
    using checkout_loop_Inr [of "w_products w" "get_cart (w_session w)" "[]" 0] by blast
  then obtain n where "checkout_loop (w_products w) (get_cart (w_session w)) [] 0 = Inl n"
    by (cases "checkout_loop (w_products w) (get_cart (w_session w)) [] 0") auto
  with ne show ?thesis
    by (simp add: checkout_def Let_def add_message_def)
qed

section \<open>Lines of products that are gone\<close>

text \<open>
  C5, as stated, fails at the checkout. The hat of the cart is not in the catalog: the
  checkout sends the visitor back to the cart page with an error notice, and the
  session cart still has the line of the hat. Removing the album (remove-item) leaves it
  there as well, without any notice.
\<close>

theorem unavailable_line_counterexample:
  "w_products (shop gone_cart) 3 = None \<and>
   fst (checkout mail_up GET (shop gone_cart)) = Redirect_cart \<and>
   map l_id (get_cart (w_session (snd (checkout mail_up GET (shop gone_cart))))) = [3, 2] \<and>
   w_messages (snd (checkout mail_up GET (shop gone_cart))) = [No_longer_available ''Hat''] \<and>
   map l_id (get_cart (w_session (snd (remove_from_cart (Some (Some 2)) (shop gone_cart)))))
     = [3] \<and>
   w_messages (snd (remove_from_cart (Some (Some 2)) (shop gone_cart))) = []"
  by (simp add: gone_cart_def shop_defs view_defs remove_from_cart_def put_cart_def)

text \<open>
  C5, amended. The cart page drops every line whose product is missing or inactive, queues
  for each of them a removed notice with the line's cached name, and keeps the other
  lines, in their order. The checkout, when the cart has such a line, sends the visitor
  back to the cart page with one error notice and leaves the session as it was.
\<close>

theorem unavailable_line_dropped_by_cart_page:
  "map label (get_cart (w_session (snd (cart w)))) =
     map label (filter (available (w_products w)) (get_cart (w_session w))) \<and>
   (\<forall>item \<in> set (get_cart (w_session w)).
      \<not> available (w_products w) item \<longrightarrow>
        Removed_from_cart (l_name item) \<in> set (w_messages (snd (cart w))) \<and>
        fst (checkout send_mail req w) = Redirect_cart \<and>
        w_session (snd (checkout send_mail req w)) = w_session w \<and>
        (\<exists>n. w_messages (snd (checkout send_mail req w)) = w_messages w @ [n]))"
  using cart_removed_notice [of _ w] checkout_unavailable [of _ w send_mail req]
  by (simp add: session_cart cart_item_label)

theorem unavailable_line_dropped_by_cart_page_witness:
  "a_line 3 ''Hat'' 900 1 \<in> set (get_cart (w_session (shop gone_cart))) \<and>
   \<not> available (w_products (shop gone_cart)) (a_line 3 ''Hat'' 900 1) \<and>
   map l_id (get_cart (w_session (snd (cart (shop gone_cart))))) = [2] \<and>
   Removed_from_cart ''Hat'' \<in> set (w_messages (snd (cart (shop gone_cart)))) \<and>
   fst (checkout mail_up GET (shop gone_cart)) = Redirect_cart"
proof -
  have h: "a_line 3 ''Hat'' 900 1 \<in> set (get_cart (w_session (shop gone_cart)))"
    "\<not> available (w_products (shop gone_cart)) (a_line 3 ''Hat'' 900 1)"
    by (simp_all add: gone_cart_def shop_defs available_def get_active_def)
  have n: "l_name (a_line 3 ''Hat'' 900 1) = ''Hat''"
    by (simp add: a_line_def)
  have "map l_id (get_cart (w_session (snd (cart (shop gone_cart))))) =
          map fst (map label (get_cart (w_session (snd (cart (shop gone_cart))))))"
    by (simp add: label_def comp_def)
  also have "\<dots> = map fst (map label (filter (available (w_products (shop gone_cart)))
                                        (get_cart (w_session (shop gone_cart)))))"
    using unavailable_line_dropped_by_cart_page [of "shop gone_cart" mail_up GET] by simp
  also have "\<dots> = [2]"
    by (simp add: gone_cart_def shop_defs available_def get_active_def label_def)
  finally have ids: "map l_id (get_cart (w_session (snd (cart (shop gone_cart))))) = [2]" .
  from unavailable_line_dropped_by_cart_page [of "shop gone_cart" mail_up GET] h n ids
  show ?thesis by auto
qed








section \<open>Cached price and name\<close>














section \<open>The invariants of the cart\<close>




text \<open>
  Two behaviours the amended statement leaves open. Add-item has no guard like the
  \<open>quantity <= 0\<close> of update-cart: a quantity of 0 is accepted and stored. The cart page
  adjusts a quantity to a stock of 0 and keeps the line.
\<close>

lemma add_to_cart_accepts_zero:
  "fst (add_to_cart (Some \<lparr>a_product_id = Some 1, a_quantity = Some 0\<rparr>) (shop [])) = Json_cart 0 \<and>
   map l_quantity (get_cart (w_session (snd (add_to_cart
         (Some \<lparr>a_product_id = Some 1, a_quantity = Some 0\<rparr>) (shop []))))) = [0]"
  by (simp add: shop_defs add_to_cart_def put_cart_def new_line_def get_active_def
        over_stock_def)

lemma cart_page_keeps_sold_out_line:
  "map l_quantity (get_cart (w_session (snd (cart
         ((shop two_shirts)\<lparr>w_products := [1 \<mapsto> shirt\<lparr>p_stock := Some 0\<rparr>]\<rparr>))))) = [0]"
  by (simp add: two_shirts_def shop_defs cart_def cart_item_def get_active_def over_stock_def)













section \<open>Unlimited stock\<close>



end
